theory Spec2Isabelle
  imports Complex_Main "HOL-Library.Word"
begin

section \<open>SLACommon.hpp: support points, ray hits and clustering\<close>

text \<open>
  A shallow embedding of \<^verbatim>\<open>src/libslic3r/SLA/SLACommon.hpp\<close>. The header defines
  \<^verbatim>\<open>SupportPoint\<close> and \<^verbatim>\<open>EigenMesh3D::hit_result\<close> inline; these are translated from the
  code. It only declares the \<^verbatim>\<open>cluster\<close> overloads; their model is written from the spec
  and says so.

  Numbers. In the code translated from the header, a \<^verbatim>\<open>float\<close> or \<^verbatim>\<open>double\<close> is a value of
  a type variable, about which nothing is assumed: it may be finite, infinite or NaN. The
  arithmetic on these values is not code of the header, it is the machine's and the Eigen
  library's, so every function that computes with them takes the operations it calls as an
  argument, and a statement about such a function is a statement about the values these
  operations compute, with their rounding, overflow and NaN. \<^verbatim>\<open>int\<close> is \<^typ>\<open>int\<close> (the
  header only compares and indexes with it) and \<^verbatim>\<open>unsigned\<close> is \<^typ>\<open>32 word\<close>.
  Only the clustering model, which is written from the spec, idealises positions and
  distances as real numbers.
\<close>

subsection \<open>Vectors and their operations\<close>

text \<open>\<^verbatim>\<open>Vec3f\<close> and \<^verbatim>\<open>Vec3d\<close> in the header's code: three coefficients of the scalar type.\<close>

type_synonym 's vec3 = "'s \<times> 's \<times> 's"
type_synonym Vec3i = "int \<times> int \<times> int"

text \<open>
  The operations on \<^verbatim>\<open>Vec3d\<close> and \<^verbatim>\<open>double\<close> that \<^verbatim>\<open>hit_result\<close> calls: \<^verbatim>\<open>a - b\<close>,
  \<^verbatim>\<open>a.cross(b)\<close>, \<^verbatim>\<open>a.normalized()\<close>, \<^verbatim>\<open>a.dot(b)\<close> and the comparison \<^verbatim>\<open>x > 0\<close>.
\<close>

record 's eigen =
  ev_minus :: "'s vec3 \<Rightarrow> 's vec3 \<Rightarrow> 's vec3"
  ev_cross :: "'s vec3 \<Rightarrow> 's vec3 \<Rightarrow> 's vec3"
  ev_normalized :: "'s vec3 \<Rightarrow> 's vec3"
  ev_dot :: "'s vec3 \<Rightarrow> 's vec3 \<Rightarrow> 's"
  gt_zero :: "'s \<Rightarrow> bool"

text \<open>
  The operations on \<^verbatim>\<open>float\<close> that \<^verbatim>\<open>SupportPoint\<close> calls: \<^verbatim>\<open>a - b\<close>, \<^verbatim>\<open>std::abs(a)\<close>,
  \<^verbatim>\<open>a < b\<close> and \<^verbatim>\<open>a == b\<close>.
\<close>

record 'f float_ops =
  f_minus :: "'f \<Rightarrow> 'f \<Rightarrow> 'f"
  f_abs :: "'f \<Rightarrow> 'f"
  f_less :: "'f \<Rightarrow> 'f \<Rightarrow> bool"
  f_eq :: "'f \<Rightarrow> 'f \<Rightarrow> bool"

text \<open>
  Vectors over the reals with exact operations. They are the positions of the clustering
  model, and one instance of the operations above: \<^verbatim>\<open>normalized()\<close> divides by the norm
  when the squared norm is positive and returns the vector unchanged otherwise.
\<close>

type_synonym Vec3d = "real \<times> real \<times> real"

fun vsub :: "Vec3d \<Rightarrow> Vec3d \<Rightarrow> Vec3d" where
  "vsub (ax, ay, az) (bx, by, bz) = (ax - bx, ay - by, az - bz)"

fun cross :: "Vec3d \<Rightarrow> Vec3d \<Rightarrow> Vec3d" where
  "cross (ax, ay, az) (bx, by, bz) =
     (ay * bz - az * by, az * bx - ax * bz, ax * by - ay * bx)"

fun dot :: "Vec3d \<Rightarrow> Vec3d \<Rightarrow> real" where
  "dot (ax, ay, az) (bx, by, bz) = ax * bx + ay * by + az * bz"

definition squaredNorm :: "Vec3d \<Rightarrow> real" where
  "squaredNorm a = dot a a"

fun vdiv :: "Vec3d \<Rightarrow> real \<Rightarrow> Vec3d" where
  "vdiv (ax, ay, az) s = (ax / s, ay / s, az / s)"

definition normalized :: "Vec3d \<Rightarrow> Vec3d" where
  "normalized n = (let z = squaredNorm n in if z > 0 then vdiv n (sqrt z) else n)"

subsection \<open>SupportPoint\<close>

record 'f SupportPoint =
  pos :: "'f vec3"
  head_front_radius :: 'f
  is_new_island :: bool

text \<open>
  \<^verbatim>\<open>pos == sp.pos\<close> on two Eigen vectors: every pair of coefficients compares equal
  with \<^verbatim>\<open>==\<close>.
\<close>

fun vec_eq :: "'f float_ops \<Rightarrow> 'f vec3 \<Rightarrow> 'f vec3 \<Rightarrow> bool" where
  "vec_eq A (ax, ay, az) (bx, by, bz) \<longleftrightarrow> f_eq A ax bx \<and> f_eq A ay by \<and> f_eq A az bz"

text \<open>
  \<^verbatim>\<open>operator==\<close> and \<^verbatim>\<open>operator!=\<close>. The first argument is the float arithmetic. The macro
  \<^verbatim>\<open>EPSILON\<close> is defined outside this header, so the value of \<^verbatim>\<open>float(EPSILON)\<close> is the
  second argument. \<^verbatim>\<open>operator!=\<close> negates \<^verbatim>\<open>operator==\<close> called on \<^verbatim>\<open>sp\<close> with the
  receiver as argument: it compares with the operands swapped.
\<close>

definition operator_eq ::
  "'f float_ops \<Rightarrow> 'f \<Rightarrow> 'f SupportPoint \<Rightarrow> 'f SupportPoint \<Rightarrow> bool" where
  "operator_eq A EPSILON this sp =
     (let rdiff = f_abs A (f_minus A (head_front_radius this) (head_front_radius sp))
      in vec_eq A (pos this) (pos sp) \<and> f_less A rdiff EPSILON
         \<and> is_new_island this = is_new_island sp)"

definition operator_neq ::
  "'f float_ops \<Rightarrow> 'f \<Rightarrow> 'f SupportPoint \<Rightarrow> 'f SupportPoint \<Rightarrow> bool" where
  "operator_neq A EPSILON this sp = (\<not> operator_eq A EPSILON sp this)"

subsection \<open>EigenMesh3D and the result of a raycast\<close>

text \<open>
  \<^verbatim>\<open>m_V\<close> and \<^verbatim>\<open>m_F\<close> are matrices read by row: a list of vertices and a list of index
  triples. The acceleration index \<^verbatim>\<open>m_aabb\<close> is an opaque pointer that no inline function
  of the header reads; it is left out.
\<close>

record 's EigenMesh3D =
  m_V :: "'s vec3 list"
  m_F :: "Vec3i list"
  m_ground_level :: 's
  m_gnd_offset :: 's

text \<open>
  What a read can go wrong with: Eigen's default constructor leaves the coefficients of a
  fixed-size vector unset, and a row index outside the matrix is an assertion failure or
  undefined. Both are values of the model, never a silent default.
\<close>

datatype fault = Uninitialised | OutOfRange

definition row :: "'a list \<Rightarrow> int \<Rightarrow> fault + 'a" where
  "row xs i = (if 0 \<le> i \<and> i < int (length xs) then Inr (xs ! nat i) else Inl OutOfRange)"

text \<open>
  \<^verbatim>\<open>m_mesh\<close> is a pointer to the mesh that produced the hit, \<^verbatim>\<open>nullptr\<close> being \<open>None\<close>;
  \<^verbatim>\<open>m_dir\<close> and \<^verbatim>\<open>m_source\<close> are \<open>None\<close> until something assigns them.
\<close>

record 's hit_result =
  m_t :: 's
  m_face_id :: int
  m_mesh :: "'s EigenMesh3D option"
  m_dir :: "'s vec3 option"
  m_source :: "'s vec3 option"

text \<open>
  \<^verbatim>\<open>explicit inline hit_result(const EigenMesh3D& em): m_mesh(&em) {}\<close> (private). The
  first argument is the value of \<^verbatim>\<open>std::nan("")\<close>, the default of \<^verbatim>\<open>m_t\<close>.
\<close>

definition hit_result_of_mesh :: "'s \<Rightarrow> 's EigenMesh3D \<Rightarrow> 's hit_result" where
  "hit_result_of_mesh nan em =
     \<lparr>m_t = nan, m_face_id = - 1, m_mesh = Some em, m_dir = None, m_source = None\<rparr>"

text \<open>\<^verbatim>\<open>inline hit_result(double val = std::nan("")): m_t(val) {}\<close> (public placeholder).\<close>

definition hit_result_placeholder :: "'s \<Rightarrow> 's hit_result" where
  "hit_result_placeholder val =
     \<lparr>m_t = val, m_face_id = - 1, m_mesh = None, m_dir = None, m_source = None\<rparr>"

definition distance :: "'s hit_result \<Rightarrow> 's" where
  "distance h = m_t h"

definition direction :: "'s hit_result \<Rightarrow> 's vec3 option" where
  "direction h = m_dir h"

definition face :: "'s hit_result \<Rightarrow> int" where
  "face h = m_face_id h"

definition is_valid :: "'s hit_result \<Rightarrow> bool" where
  "is_valid h = (m_mesh h \<noteq> None)"

text \<open>
  \<^verbatim>\<open>normal()\<close>: the early \<^verbatim>\<open>return {}\<close> hands back a default-constructed vector, whose
  coefficients are unset; otherwise the three corners of row \<^verbatim>\<open>m_face_id\<close> of \<^verbatim>\<open>m_F\<close> are
  read from \<^verbatim>\<open>m_V\<close> and Eigen computes \<^verbatim>\<open>U = p2 - p1\<close>, \<^verbatim>\<open>V = p3 - p1\<close> and
  \<^verbatim>\<open>U.cross(V).normalized()\<close>.
\<close>

definition normal :: "'s eigen \<Rightarrow> 's hit_result \<Rightarrow> fault + 's vec3" where
  "normal E h =
     (if m_face_id h < 0 \<or> \<not> is_valid h then Inl Uninitialised
      else case m_mesh h of
        None \<Rightarrow> Inl Uninitialised
      | Some mesh \<Rightarrow>
          (case row (m_F mesh) (m_face_id h) of
             Inl e \<Rightarrow> Inl e
           | Inr (i0, i1, i2) \<Rightarrow>
               (case row (m_V mesh) i0 of
                  Inl e \<Rightarrow> Inl e
                | Inr p1 \<Rightarrow>
                    (case row (m_V mesh) i1 of
                       Inl e \<Rightarrow> Inl e
                     | Inr p2 \<Rightarrow>
                         (case row (m_V mesh) i2 of
                            Inl e \<Rightarrow> Inl e
                          | Inr p3 \<Rightarrow>
                              Inr (ev_normalized E
                                     (ev_cross E (ev_minus E p2 p1) (ev_minus E p3 p1))))))))"

text \<open>
  \<^verbatim>\<open>is_inside()\<close> is \<^verbatim>\<open>m_face_id >= 0 && normal().dot(m_dir) > 0\<close>: the right operand is
  evaluated only for a non-negative face index.
\<close>

definition is_inside :: "'s eigen \<Rightarrow> 's hit_result \<Rightarrow> fault + bool" where
  "is_inside E h =
     (if m_face_id h \<ge> 0 then
        (case normal E h of
           Inl e \<Rightarrow> Inl e
         | Inr n \<Rightarrow>
             (case m_dir h of
                None \<Rightarrow> Inl Uninitialised
              | Some d \<Rightarrow> Inr (gt_zero E (ev_dot E n d))))
      else Inr False)"

subsection \<open>Clustering\<close>

type_synonym ClusterEl = "32 word list"
type_synonym ClusteredPoints = "ClusterEl list"
type_synonym PointIndexEl = "Vec3d \<times> 32 word"

text \<open>
  The header declares the three \<^verbatim>\<open>cluster\<close> overloads and defines none of them. Their
  model follows the spec's algorithm contract: closeness is tested exhaustively on the pairs
  of input indices ("result must be identical to exhaustive pairwise testing"); clusters
  are joined under single linkage ("two points belong to the same cluster if connected
  through any chain of pairwise-close points"); and the cap is hard ("when merging two
  clusters would exceed the cap the merge is rejected and each side retains its current
  membership"). Input order fixes the order of the pairs and of the result.
\<close>

text \<open>
  Modelled from the spec: the cluster an index currently lies in, the first one in the
  list that holds it (part of the missing body of \<^verbatim>\<open>cluster\<close>).
\<close>

definition cluster_of :: "'a list list \<Rightarrow> 'a \<Rightarrow> 'a list" where
  "cluster_of cs x = (case find (\<lambda>c. x \<in> set c) cs of None \<Rightarrow> [] | Some c \<Rightarrow> c)"

text \<open>
  Modelled from the spec: the merge of the clusters of two close points \<open>a\<close> and \<open>b\<close>
  (part of the missing body of \<^verbatim>\<open>cluster\<close>). Nothing changes when they already share a
  cluster, nor when the two clusters together hold more than \<^verbatim>\<open>max_points\<close> indices (the
  rejected merge); otherwise the cluster of \<open>b\<close> is appended to the cluster of \<open>a\<close>.
\<close>

definition merge_clusters :: "nat \<Rightarrow> 'a \<Rightarrow> 'a \<Rightarrow> 'a list list \<Rightarrow> 'a list list" where
  "merge_clusters max_points a b cs =
     (let ca = cluster_of cs a; cb = cluster_of cs b
      in if ca = cb then cs
         else if length ca + length cb > max_points then cs
         else map (\<lambda>c. if c = ca then ca @ cb else c) (filter (\<lambda>c. c \<noteq> cb) cs))"

text \<open>
  Modelled from the spec: one pairwise test (part of the missing body of \<^verbatim>\<open>cluster\<close>);
  a pair that is close merges its two clusters.
\<close>

definition link :: "('a \<Rightarrow> 'a \<Rightarrow> bool) \<Rightarrow> nat \<Rightarrow> 'a \<times> 'a \<Rightarrow> 'a list list \<Rightarrow> 'a list list" where
  "link close max_points p cs =
     (if close (fst p) (snd p) then merge_clusters max_points (fst p) (snd p) cs else cs)"

text \<open>
  Modelled from the spec: the algorithm the three overloads share (the missing body of
  \<^verbatim>\<open>cluster\<close>). Every index starts as a cluster of its own, and every ordered pair of
  input indices is tested, in input order.
\<close>

definition cluster_by :: "('a \<Rightarrow> 'a \<Rightarrow> bool) \<Rightarrow> nat \<Rightarrow> 'a list \<Rightarrow> 'a list list" where
  "cluster_by close max_points indices =
     fold (link close max_points) (List.product indices indices) (map (\<lambda>i. [i]) indices)"

text \<open>
  Modelled from the spec: the Euclidean distance of two positions, which the threshold
  variants compare with \<^verbatim>\<open>dist\<close> ("their positions are within the threshold"); the
  distance function the missing body calls is not in the header.
\<close>

definition point_distance :: "Vec3d \<Rightarrow> Vec3d \<Rightarrow> real" where
  "point_distance p q = sqrt (squaredNorm (vsub p q))"

text \<open>
  Modelled from the spec: Variant A, the missing body of
  \<^verbatim>\<open>cluster(indices, pointfn, dist, max_points)\<close>.
\<close>

definition cluster :: "32 word list \<Rightarrow> (32 word \<Rightarrow> Vec3d) \<Rightarrow> real \<Rightarrow> 32 word \<Rightarrow> ClusteredPoints"
  where
  "cluster indices pointfn d max_points =
     cluster_by (\<lambda>a b. point_distance (pointfn a) (pointfn b) \<le> d) (unat max_points) indices"

text \<open>
  Modelled from the spec: Variant B, the missing body of
  \<^verbatim>\<open>cluster(points, dist, max_points)\<close>, which is Variant A with the positions read from
  the array and every array position as an index. Each index it is run on is a position
  of the array, so no read is out of range.
\<close>

definition cluster_points :: "Vec3d list \<Rightarrow> real \<Rightarrow> 32 word \<Rightarrow> ClusteredPoints" where
  "cluster_points points d max_points =
     cluster (map word_of_nat [0 ..< length points]) (\<lambda>i. points ! unat i) d max_points"

text \<open>
  Modelled from the spec: Variant C, the missing body of
  \<^verbatim>\<open>cluster(indices, pointfn, predicate, max_points)\<close>, where closeness is the caller's
  predicate on two candidates. The type \<^verbatim>\<open>PointIndexEl\<close> is declared in another header;
  a candidate is taken to be a position with its index.
\<close>

definition cluster_pred ::
  "32 word list \<Rightarrow> (32 word \<Rightarrow> Vec3d) \<Rightarrow> (PointIndexEl \<Rightarrow> PointIndexEl \<Rightarrow> bool) \<Rightarrow> 32 word
   \<Rightarrow> ClusteredPoints" where
  "cluster_pred indices pointfn predicate max_points =
     cluster_by (\<lambda>a b. predicate (pointfn a, a) (pointfn b, b)) (unat max_points) indices"

text \<open>
  The vocabulary of the proofs: two indices share a cluster; a list of clusters partitions
  a set of indices; each of its clusters is connected by chains of a relation.
\<close>

definition same_cluster :: "'a list list \<Rightarrow> 'a \<Rightarrow> 'a \<Rightarrow> bool" where
  "same_cluster cs x y = (\<exists>c \<in> set cs. x \<in> set c \<and> y \<in> set c)"

definition partition_of :: "'a set \<Rightarrow> 'a list list \<Rightarrow> bool" where
  "partition_of S cs \<longleftrightarrow>
     (\<forall>c \<in> set cs. distinct c \<and> set c \<subseteq> S)
     \<and> (\<forall>c \<in> set cs. \<forall>d \<in> set cs. c \<noteq> d \<longrightarrow> set c \<inter> set d = {})
     \<and> (\<forall>x \<in> S. \<exists>c \<in> set cs. x \<in> set c)"

definition chained :: "('a \<times> 'a) set \<Rightarrow> 'a list list \<Rightarrow> bool" where
  "chained E cs \<longleftrightarrow> (\<forall>c \<in> set cs. \<forall>x \<in> set c. \<forall>y \<in> set c. (x, y) \<in> E\<^sup>*)"

subsection \<open>Sample input\<close>

text \<open>A position function for concrete runs: index \<open>i\<close> sits at \<open>(i, 0, 0)\<close>.\<close>

definition line_points :: "32 word \<Rightarrow> Vec3d" where
  "line_points i = (real (unat i), 0, 0)"

text \<open>
  An instance of the Eigen operations: exact arithmetic on real coefficients. On vectors
  with small integer coefficients, as in the run below, IEEE double arithmetic computes
  the same values.
\<close>

definition exact_eigen :: "real eigen" where
  "exact_eigen =
     \<lparr>ev_minus = vsub, ev_cross = cross, ev_normalized = normalized, ev_dot = dot,
      gt_zero = (\<lambda>x. 0 < x)\<rparr>"

text \<open>
  An instance of the float operations with the two features of IEEE 754 arithmetic that
  matter to \<^verbatim>\<open>operator==\<close>. A value is finite or NaN; NaN propagates through the
  arithmetic and compares neither less than nor equal to anything, itself included. A
  difference is rounded to the nearest multiple of \<^verbatim>\<open>2^-37\<close>, which is the spacing of
  binary32 between \<^verbatim>\<open>2^-14\<close> and \<^verbatim>\<open>2^-13\<close>, where \<^verbatim>\<open>float(1e-4) = 13743895 / 2^37\<close>
  lies: on differences of that size it rounds as binary32 does.
\<close>

datatype sfloat = Finite real | NaN

definition to_grid :: "real \<Rightarrow> real" where
  "to_grid z = sgn z * real_of_int \<lfloor>\<bar>z\<bar> * 2 ^ 37 + 1 / 2\<rfloor> / 2 ^ 37"

fun g_minus :: "sfloat \<Rightarrow> sfloat \<Rightarrow> sfloat" where
  "g_minus (Finite x) (Finite y) = Finite (to_grid (x - y))"
| "g_minus _ _ = NaN"

fun g_abs :: "sfloat \<Rightarrow> sfloat" where
  "g_abs (Finite x) = Finite \<bar>x\<bar>"
| "g_abs NaN = NaN"

fun g_less :: "sfloat \<Rightarrow> sfloat \<Rightarrow> bool" where
  "g_less (Finite x) (Finite y) \<longleftrightarrow> x < y"
| "g_less _ _ \<longleftrightarrow> False"

fun g_eq :: "sfloat \<Rightarrow> sfloat \<Rightarrow> bool" where
  "g_eq (Finite x) (Finite y) \<longleftrightarrow> x = y"
| "g_eq _ _ \<longleftrightarrow> False"

definition grid_floats :: "sfloat float_ops" where
  "grid_floats = \<lparr>f_minus = g_minus, f_abs = g_abs, f_less = g_less, f_eq = g_eq\<rparr>"

section \<open>Properties\<close>

subsection \<open>Placeholder hits\<close>

text \<open>
  Claim C10. A \<^verbatim>\<open>hit_result\<close> built by the public placeholder constructor
  \<^verbatim>\<open>hit_result(double)\<close> reports \<^verbatim>\<open>is_valid()\<close> false, \<^verbatim>\<open>face()\<close> equal to \<open>-1\<close> and
  \<^verbatim>\<open>distance()\<close> equal to the value supplied (NaN included); and every \<^verbatim>\<open>hit_result\<close>
  whose face index is negative, whatever its mesh pointer and its other fields hold, has
  \<^verbatim>\<open>is_inside()\<close> false, with no read of the mesh or of an unset field and no arithmetic.
  So a placeholder is never a real hit nor an interior one.
\<close>

theorem placeholder_hit_is_never_real:
  "\<not> is_valid (hit_result_placeholder val)
   \<and> face (hit_result_placeholder val) = - 1
   \<and> distance (hit_result_placeholder val) = val
   \<and> is_inside E (hit_result_placeholder val) = Inr False
   \<and> (\<forall>h. m_face_id h < 0 \<longrightarrow> is_inside E h = Inr False)"
  by (simp add: hit_result_placeholder_def is_valid_def face_def distance_def is_inside_def)

theorem placeholder_hit_is_never_real_witness:
  "m_face_id \<lparr>m_t = NaN, m_face_id = - 7,
              m_mesh = Some \<lparr>m_V = [], m_F = [], m_ground_level = Finite 0,
                              m_gnd_offset = Finite 0\<rparr>,
              m_dir = Some (Finite 0, Finite 0, Finite 1), m_source = None\<rparr> < 0
   \<and> is_inside \<lparr>ev_minus = \<lambda>a b. a, ev_cross = \<lambda>a b. a, ev_normalized = \<lambda>a. a,
                 ev_dot = \<lambda>a b. NaN, gt_zero = \<lambda>x. True\<rparr>
        \<lparr>m_t = NaN, m_face_id = - 7,
              m_mesh = Some \<lparr>m_V = [], m_F = [], m_ground_level = Finite 0,
                              m_gnd_offset = Finite 0\<rparr>,
              m_dir = Some (Finite 0, Finite 0, Finite 1), m_source = None\<rparr> = Inr False"
  using placeholder_hit_is_never_real [of NaN] by simp

subsection \<open>Interior hits\<close>

text \<open>
  Claim C7. For a \<^verbatim>\<open>hit_result\<close> that carries a mesh, a non-negative face index that is
  a row of \<^verbatim>\<open>m_F\<close> whose three corners are rows of \<^verbatim>\<open>m_V\<close>, and a ray direction,
  \<^verbatim>\<open>normal()\<close> is the normalised cross product of the two edge vectors \<open>p2 - p1\<close> and
  \<open>p3 - p1\<close> of the face, and \<^verbatim>\<open>is_inside()\<close> is true exactly when the dot product of
  that normal with the ray direction is strictly positive. The edges, the cross product,
  its normalisation, the dot product and its sign are the values Eigen and the machine
  compute, whatever their arithmetic.
\<close>

theorem is_inside_iff_normal_dot_positive:
  assumes "m_mesh h = Some mesh"
    and "0 \<le> m_face_id h"
    and "row (m_F mesh) (m_face_id h) = Inr (i0, i1, i2)"
    and "row (m_V mesh) i0 = Inr p1"
    and "row (m_V mesh) i1 = Inr p2"
    and "row (m_V mesh) i2 = Inr p3"
    and "m_dir h = Some d"
  shows "normal E h = Inr (ev_normalized E (ev_cross E (ev_minus E p2 p1) (ev_minus E p3 p1)))
         \<and> is_inside E h
             = Inr (gt_zero E
                     (ev_dot E (ev_normalized E (ev_cross E (ev_minus E p2 p1) (ev_minus E p3 p1)))
                        d))"
  using assms by (simp add: is_inside_def normal_def is_valid_def)

theorem is_inside_iff_normal_dot_positive_witness:
  "normal exact_eigen \<lparr>m_t = 2, m_face_id = 0,
      m_mesh = Some \<lparr>m_V = [(0, 0, 0), (1, 0, 0), (0, 1, 0)], m_F = [(0, 1, 2)],
         m_ground_level = 0, m_gnd_offset = 0\<rparr>,
      m_dir = Some (0, 0, 1), m_source = Some (0, 0, - 2)\<rparr> = Inr (0, 0, 1)
   \<and> is_inside exact_eigen \<lparr>m_t = 2, m_face_id = 0,
      m_mesh = Some \<lparr>m_V = [(0, 0, 0), (1, 0, 0), (0, 1, 0)], m_F = [(0, 1, 2)],
         m_ground_level = 0, m_gnd_offset = 0\<rparr>,
      m_dir = Some (0, 0, 1), m_source = Some (0, 0, - 2)\<rparr> = Inr True
   \<and> is_inside exact_eigen \<lparr>m_t = 2, m_face_id = 0,
      m_mesh = Some \<lparr>m_V = [(0, 0, 0), (1, 0, 0), (0, 1, 0)], m_F = [(0, 1, 2)],
         m_ground_level = 0, m_gnd_offset = 0\<rparr>,
      m_dir = Some (0, 0, - 1), m_source = Some (0, 0, 2)\<rparr> = Inr False"
proof -
  note up = is_inside_iff_normal_dot_positive [of
     "\<lparr>m_t = 2, m_face_id = 0,
      m_mesh = Some \<lparr>m_V = [(0, 0, 0), (1, 0, 0), (0, 1, 0)], m_F = [(0, 1, 2)],
         m_ground_level = 0, m_gnd_offset = 0\<rparr>,
      m_dir = Some (0, 0, 1), m_source = Some (0, 0, - 2)\<rparr>"
     "\<lparr>m_V = [(0, 0, 0), (1, 0, 0), (0, 1, 0)], m_F = [(0, 1, 2)],
         m_ground_level = 0, m_gnd_offset = 0\<rparr>"
     0 1 2 "(0, 0, 0)" "(1, 0, 0)" "(0, 1, 0)" "(0, 0, 1)" exact_eigen]
  note down = is_inside_iff_normal_dot_positive [of
     "\<lparr>m_t = 2, m_face_id = 0,
      m_mesh = Some \<lparr>m_V = [(0, 0, 0), (1, 0, 0), (0, 1, 0)], m_F = [(0, 1, 2)],
         m_ground_level = 0, m_gnd_offset = 0\<rparr>,
      m_dir = Some (0, 0, - 1), m_source = Some (0, 0, 2)\<rparr>"
     "\<lparr>m_V = [(0, 0, 0), (1, 0, 0), (0, 1, 0)], m_F = [(0, 1, 2)],
         m_ground_level = 0, m_gnd_offset = 0\<rparr>"
     0 1 2 "(0, 0, 0)" "(1, 0, 0)" "(0, 1, 0)" "(0, 0, - 1)" exact_eigen]
  show ?thesis
    using up down by (simp add: row_def exact_eigen_def normalized_def squaredNorm_def)
qed

subsection \<open>Equality of support points\<close>

lemma to_grid_uminus: "to_grid (- z) = - to_grid z"
  by (simp add: to_grid_def sgn_minus)

lemma g_abs_minus_commute: "g_abs (g_minus x y) = g_abs (g_minus y x)"
proof (cases x; cases y)
  fix a b assume "x = Finite a" "y = Finite b"
  moreover have "\<bar>to_grid (a - b)\<bar> = \<bar>to_grid (b - a)\<bar>"
    using to_grid_uminus [of "a - b"] by simp
  ultimately show ?thesis by simp
qed simp_all

lemma g_eq_commute: "g_eq x y = g_eq y x"
  by (cases x; cases y) auto

lemma to_grid_float_1e_4: "to_grid (13743895 / 2 ^ 37 - 1 / 2 ^ 60) = 13743895 / 2 ^ 37"
proof -
  have "\<lfloor>(13743895 / 2 ^ 37 - 1 / 2 ^ 60) * 2 ^ 37 + 1 / 2 :: real\<rfloor> = 13743895"
    by (rule floor_unique) simp_all
  then show ?thesis by (simp add: to_grid_def)
qed

lemma to_grid_2_14: "to_grid (1 / 2 - (1 / 2 + 1 / 2 ^ 14)) = - (1 / 2 ^ 14)"
proof -
  have "\<lfloor>\<bar>1 / 2 - (1 / 2 + 1 / 2 ^ 14)\<bar> * 2 ^ 37 + 1 / 2 :: real\<rfloor> = 8388608"
    by (rule floor_unique) simp_all
  then show ?thesis by (simp add: to_grid_def)
qed

text \<open>
  Claim C9, as stated, fails in two ways. The radii \<^verbatim>\<open>float(1e-4)\<close> and \<^verbatim>\<open>2^-60\<close> differ
  by less than \<^verbatim>\<open>float(1e-4)\<close>, but their float difference rounds to \<^verbatim>\<open>float(1e-4)\<close>,
  which is not less than itself: two points that differ by these radii only compare
  unequal. And a point with a NaN coordinate compares unequal to itself, since
  \<^verbatim>\<open>NaN == NaN\<close> is false.
\<close>

theorem support_point_equality_counterexample:
  "\<bar>13743895 / 2 ^ 37 - 1 / 2 ^ 60\<bar> < (13743895 / 2 ^ 37 :: real)
   \<and> \<not> operator_eq grid_floats (Finite (13743895 / 2 ^ 37))
        \<lparr>pos = (Finite 1, Finite 2, Finite 3), head_front_radius = Finite (13743895 / 2 ^ 37),
          is_new_island = False\<rparr>
        \<lparr>pos = (Finite 1, Finite 2, Finite 3), head_front_radius = Finite (1 / 2 ^ 60),
          is_new_island = False\<rparr>
   \<and> \<not> operator_eq grid_floats (Finite (13743895 / 2 ^ 37))
        \<lparr>pos = (NaN, Finite 2, Finite 3), head_front_radius = Finite 1, is_new_island = False\<rparr>
        \<lparr>pos = (NaN, Finite 2, Finite 3), head_front_radius = Finite 1, is_new_island = False\<rparr>"
proof -
  have close: "\<bar>13743895 / 2 ^ 37 - 1 / 2 ^ 60\<bar> < (13743895 / 2 ^ 37 :: real)"
    by simp
  have d: "f_abs grid_floats
             (f_minus grid_floats (Finite (13743895 / 2 ^ 37)) (Finite (1 / 2 ^ 60)))
           = Finite (13743895 / 2 ^ 37)"
    by (simp only: grid_floats_def float_ops.simps g_minus.simps g_abs.simps
          to_grid_float_1e_4) simp
  have nl: "\<not> f_less grid_floats (Finite (13743895 / 2 ^ 37)) (Finite (13743895 / 2 ^ 37))"
    by (simp add: grid_floats_def)
  have rounded: "\<not> operator_eq grid_floats (Finite (13743895 / 2 ^ 37))
        \<lparr>pos = (Finite 1, Finite 2, Finite 3), head_front_radius = Finite (13743895 / 2 ^ 37),
          is_new_island = False\<rparr>
        \<lparr>pos = (Finite 1, Finite 2, Finite 3), head_front_radius = Finite (1 / 2 ^ 60),
          is_new_island = False\<rparr>"
    by (simp only: operator_eq_def Let_def SupportPoint.simps d nl) simp
  have nan: "\<not> operator_eq grid_floats (Finite (13743895 / 2 ^ 37))
        \<lparr>pos = (NaN, Finite 2, Finite 3), head_front_radius = Finite 1, is_new_island = False\<rparr>
        \<lparr>pos = (NaN, Finite 2, Finite 3), head_front_radius = Finite 1, is_new_island = False\<rparr>"
    by (simp add: operator_eq_def grid_floats_def)
  show ?thesis by (intro conjI close rounded nan)
qed

text \<open>
  Claim C9, amended. \<^verbatim>\<open>operator==\<close> on two \<^verbatim>\<open>SupportPoint\<close> values is true exactly when
  the positions compare equal with \<^verbatim>\<open>==\<close> component by component, the \<^verbatim>\<open>is_new_island\<close>
  flags are equal and the absolute float difference of the head radii, as computed,
  compares less than \<^verbatim>\<open>float(EPSILON)\<close>. In particular a point whose position compares
  equal to itself (no NaN coordinate) compares equal to any point that differs from it only
  by a head radius with such a computed difference. In an arithmetic where \<^verbatim>\<open>==\<close> is
  symmetric and the computed \<^verbatim>\<open>|a - b|\<close> and \<^verbatim>\<open>|b - a|\<close> compare alike with
  \<^verbatim>\<open>float(EPSILON)\<close>, as in IEEE 754 arithmetic rounding to nearest, \<^verbatim>\<open>operator!=\<close> is the
  exact negation of \<^verbatim>\<open>operator==\<close>, although it swaps the operands.
\<close>

theorem support_point_equality:
  assumes eq_sym: "\<And>x y. f_eq A x y = f_eq A y x"
    and diff_sym: "\<And>x y. f_less A (f_abs A (f_minus A x y)) EPSILON
                          = f_less A (f_abs A (f_minus A y x)) EPSILON"
  shows "(operator_eq A EPSILON a b \<longleftrightarrow>
            vec_eq A (pos a) (pos b) \<and> is_new_island a = is_new_island b
            \<and> f_less A (f_abs A (f_minus A (head_front_radius a) (head_front_radius b))) EPSILON)
       \<and> (operator_neq A EPSILON a b \<longleftrightarrow> \<not> operator_eq A EPSILON a b)
       \<and> (\<forall>r. vec_eq A (pos a) (pos a)
                \<and> f_less A (f_abs A (f_minus A (head_front_radius a) r)) EPSILON
              \<longrightarrow> operator_eq A EPSILON a (a\<lparr>head_front_radius := r\<rparr>))"
proof -
  have v: "vec_eq A p q = vec_eq A q p" for p q
  proof (cases p; cases q)
    fix p1 p2 p3 q1 q2 q3 assume "p = (p1, p2, p3)" "q = (q1, q2, q3)"
    then show ?thesis
      using eq_sym [of p1 q1] eq_sym [of p2 q2] eq_sym [of p3 q3] by simp
  qed
  have 1: "operator_eq A EPSILON a b \<longleftrightarrow>
            vec_eq A (pos a) (pos b) \<and> is_new_island a = is_new_island b
            \<and> f_less A (f_abs A (f_minus A (head_front_radius a) (head_front_radius b))) EPSILON"
    for a b :: "'a SupportPoint"
    by (auto simp: operator_eq_def Let_def)
  have 2: "operator_neq A EPSILON a b \<longleftrightarrow> \<not> operator_eq A EPSILON a b"
    unfolding operator_neq_def 1
    using v [of "pos a" "pos b"] diff_sym [of "head_front_radius a" "head_front_radius b"]
    by auto
  have 3: "\<forall>r. vec_eq A (pos a) (pos a)
                \<and> f_less A (f_abs A (f_minus A (head_front_radius a) r)) EPSILON
              \<longrightarrow> operator_eq A EPSILON a (a\<lparr>head_front_radius := r\<rparr>)"
    by (simp add: 1)
  show ?thesis using 1 2 3 by blast
qed

theorem support_point_equality_witness:
  "vec_eq grid_floats (Finite 1, Finite 2, Finite 3) (Finite 1, Finite 2, Finite 3)
   \<and> f_less grid_floats
        (f_abs grid_floats (f_minus grid_floats (Finite (1 / 2)) (Finite (1 / 2 + 1 / 2 ^ 14))))
        (Finite (13743895 / 2 ^ 37))
   \<and> operator_eq grid_floats (Finite (13743895 / 2 ^ 37))
        \<lparr>pos = (Finite 1, Finite 2, Finite 3), head_front_radius = Finite (1 / 2),
          is_new_island = True\<rparr>
        \<lparr>pos = (Finite 1, Finite 2, Finite 3), head_front_radius = Finite (1 / 2 + 1 / 2 ^ 14),
          is_new_island = True\<rparr>
   \<and> \<not> operator_neq grid_floats (Finite (13743895 / 2 ^ 37))
        \<lparr>pos = (Finite 1, Finite 2, Finite 3), head_front_radius = Finite (1 / 2),
          is_new_island = True\<rparr>
        \<lparr>pos = (Finite 1, Finite 2, Finite 3), head_front_radius = Finite (1 / 2 + 1 / 2 ^ 14),
          is_new_island = True\<rparr>"
proof -
  have s1: "\<And>x y. f_eq grid_floats x y = f_eq grid_floats y x"
    by (simp add: grid_floats_def g_eq_commute)
  have s2: "\<And>x y. f_less grid_floats (f_abs grid_floats (f_minus grid_floats x y))
                     (Finite (13743895 / 2 ^ 37))
                 = f_less grid_floats (f_abs grid_floats (f_minus grid_floats y x))
                     (Finite (13743895 / 2 ^ 37))"
    by (simp add: grid_floats_def g_abs_minus_commute)
  have v: "vec_eq grid_floats (Finite 1, Finite 2, Finite 3) (Finite 1, Finite 2, Finite 3)"
    by (simp add: grid_floats_def)
  have l: "f_less grid_floats
        (f_abs grid_floats (f_minus grid_floats (Finite (1 / 2)) (Finite (1 / 2 + 1 / 2 ^ 14))))
        (Finite (13743895 / 2 ^ 37))"
    by (simp only: grid_floats_def float_ops.simps g_minus.simps g_abs.simps to_grid_2_14) simp
  note t = support_point_equality [OF s1 s2,
      of "\<lparr>pos = (Finite 1, Finite 2, Finite 3), head_front_radius = Finite (1 / 2),
            is_new_island = True\<rparr>"
         "\<lparr>pos = (Finite 1, Finite 2, Finite 3), head_front_radius = Finite (1 / 2 + 1 / 2 ^ 14),
            is_new_island = True\<rparr>"]
  have e: "operator_eq grid_floats (Finite (13743895 / 2 ^ 37))
        \<lparr>pos = (Finite 1, Finite 2, Finite 3), head_front_radius = Finite (1 / 2),
          is_new_island = True\<rparr>
        \<lparr>pos = (Finite 1, Finite 2, Finite 3), head_front_radius = Finite (1 / 2 + 1 / 2 ^ 14),
          is_new_island = True\<rparr>"
    using t v l by simp
  have n: "\<not> operator_neq grid_floats (Finite (13743895 / 2 ^ 37))
        \<lparr>pos = (Finite 1, Finite 2, Finite 3), head_front_radius = Finite (1 / 2),
          is_new_island = True\<rparr>
        \<lparr>pos = (Finite 1, Finite 2, Finite 3), head_front_radius = Finite (1 / 2 + 1 / 2 ^ 14),
          is_new_island = True\<rparr>"
    using t e by blast
  show ?thesis by (intro conjI v l e n)
qed

subsection \<open>Clustering: partitions and chains\<close>

lemma cluster_of_in:
  assumes "partition_of S cs" "x \<in> S"
  shows "cluster_of cs x \<in> set cs \<and> x \<in> set (cluster_of cs x)"
proof -
  from assms obtain c where "c \<in> set cs" "x \<in> set c"
    unfolding partition_of_def by blast
  then have "find (\<lambda>c. x \<in> set c) cs \<noteq> None"
    by (auto simp: find_None_iff)
  then obtain c' where f: "find (\<lambda>c. x \<in> set c) cs = Some c'" by blast
  then have "c' \<in> set cs \<and> x \<in> set c'"
    by (auto simp: find_Some_iff)
  with f show ?thesis by (simp add: cluster_of_def)
qed

lemma partition_unique:
  assumes "partition_of S cs" "c \<in> set cs" "d \<in> set cs" "x \<in> set c" "x \<in> set d"
  shows "c = d"
  using assms unfolding partition_of_def by blast

lemma cluster_of_eq:
  assumes "partition_of S cs" "c \<in> set cs" "x \<in> set c"
  shows "cluster_of cs x = c"
proof -
  have "x \<in> S" using assms unfolding partition_of_def by blast
  then have "cluster_of cs x \<in> set cs \<and> x \<in> set (cluster_of cs x)"
    using assms(1) by (rule cluster_of_in[rotated])
  then show ?thesis using partition_unique[OF assms(1) _ assms(2) _ assms(3)] by blast
qed

lemma set_merge_clusters:
  assumes "partition_of S cs" "a \<in> S" "b \<in> S"
    and "cluster_of cs a \<noteq> cluster_of cs b"
    and "length (cluster_of cs a) + length (cluster_of cs b) \<le> n"
  shows "set (merge_clusters n a b cs)
         = insert (cluster_of cs a @ cluster_of cs b) (set cs - {cluster_of cs a, cluster_of cs b})"
proof -
  have "cluster_of cs a \<in> set cs" using cluster_of_in[OF assms(1,2)] by simp
  then show ?thesis
    using assms(4,5) by (auto simp: merge_clusters_def Let_def)
qed

lemma two_clusters_fit:
  assumes "partition_of (set indices) cs" "distinct indices"
    and "c \<in> set cs" "d \<in> set cs" "c \<noteq> d"
  shows "length c + length d \<le> length indices"
proof -
  have dc: "distinct c" "distinct d" and sub: "set c \<subseteq> set indices" "set d \<subseteq> set indices"
    and dis: "set c \<inter> set d = {}"
    using assms unfolding partition_of_def by blast+
  have "length c + length d = card (set c) + card (set d)"
    using dc by (simp add: distinct_card)
  also have "\<dots> = card (set c \<union> set d)"
    using dis by (simp add: card_Un_disjoint)
  also have "\<dots> \<le> card (set indices)"
    using sub by (intro card_mono) auto
  also have "\<dots> = length indices"
    using assms(2) by (simp add: distinct_card)
  finally show ?thesis .
qed

lemma partition_merge_clusters:
  assumes p: "partition_of S cs" and a: "a \<in> S" and b: "b \<in> S"
  shows "partition_of S (merge_clusters n a b cs)"
proof (cases "cluster_of cs a \<noteq> cluster_of cs b
              \<and> length (cluster_of cs a) + length (cluster_of cs b) \<le> n")
  case False
  then have "merge_clusters n a b cs = cs"
    by (auto simp: merge_clusters_def Let_def)
  with p show ?thesis by simp
next
  case True
  let ?ca = "cluster_of cs a" and ?cb = "cluster_of cs b"
  have S: "set (merge_clusters n a b cs) = insert (?ca @ ?cb) (set cs - {?ca, ?cb})"
    using set_merge_clusters[OF p a b] True by blast
  have ina: "?ca \<in> set cs" and inb: "?cb \<in> set cs"
    using cluster_of_in[OF p a] cluster_of_in[OF p b] by simp_all
  have each: "\<And>c. c \<in> set cs \<Longrightarrow> distinct c \<and> set c \<subseteq> S"
    and dis: "\<And>c d. c \<in> set cs \<Longrightarrow> d \<in> set cs \<Longrightarrow> c \<noteq> d \<Longrightarrow> set c \<inter> set d = {}"
    and cov: "\<And>x. x \<in> S \<Longrightarrow> \<exists>c \<in> set cs. x \<in> set c"
    using p unfolding partition_of_def by blast+
  have ab: "set ?ca \<inter> set ?cb = {}" using dis[OF ina inb] True by simp
  have m: "distinct (?ca @ ?cb) \<and> set (?ca @ ?cb) \<subseteq> S"
    using each[OF ina] each[OF inb] ab by auto
  have c1: "\<forall>c \<in> set (merge_clusters n a b cs). distinct c \<and> set c \<subseteq> S"
    unfolding S using m each by blast
  have md: "\<And>d. d \<in> set cs \<Longrightarrow> d \<noteq> ?ca \<Longrightarrow> d \<noteq> ?cb \<Longrightarrow> set (?ca @ ?cb) \<inter> set d = {}"
  proof -
    fix d assume d: "d \<in> set cs" "d \<noteq> ?ca" "d \<noteq> ?cb"
    have "set ?ca \<inter> set d = {}" "set ?cb \<inter> set d = {}"
      using dis[OF ina d(1)] dis[OF inb d(1)] d by auto
    then show "set (?ca @ ?cb) \<inter> set d = {}" by auto
  qed
  have c2: "\<forall>c \<in> set (merge_clusters n a b cs). \<forall>d \<in> set (merge_clusters n a b cs).
              c \<noteq> d \<longrightarrow> set c \<inter> set d = {}"
  proof (intro ballI impI)
    fix c d
    assume c: "c \<in> set (merge_clusters n a b cs)" and d: "d \<in> set (merge_clusters n a b cs)"
      and ne: "c \<noteq> d"
    from c consider "c = ?ca @ ?cb" | "c \<in> set cs" "c \<noteq> ?ca" "c \<noteq> ?cb"
      unfolding S by blast
    then show "set c \<inter> set d = {}"
    proof cases
      case 1
      with d ne have "d \<in> set cs" "d \<noteq> ?ca" "d \<noteq> ?cb" unfolding S by auto
      then show ?thesis using md 1 by simp
    next
      case 2
      from d consider "d = ?ca @ ?cb" | "d \<in> set cs" "d \<noteq> ?ca" "d \<noteq> ?cb"
        unfolding S by blast
      then show ?thesis
      proof cases
        case 1
        then show ?thesis using md[OF 2] by auto
      next
        case 2
        then show ?thesis using dis \<open>c \<in> set cs\<close> ne by blast
      qed
    qed
  qed
  have c3: "\<forall>x \<in> S. \<exists>c \<in> set (merge_clusters n a b cs). x \<in> set c"
  proof
    fix x assume "x \<in> S"
    then obtain c where c: "c \<in> set cs" "x \<in> set c" using cov by blast
    show "\<exists>c \<in> set (merge_clusters n a b cs). x \<in> set c"
    proof (cases "c = ?ca \<or> c = ?cb")
      case True
      then have "x \<in> set (?ca @ ?cb)" using c by auto
      then show ?thesis unfolding S by blast
    next
      case False
      then show ?thesis unfolding S using c by blast
    qed
  qed
  show ?thesis unfolding partition_of_def using c1 c2 c3 by blast
qed

lemma same_cluster_merge_mono:
  assumes p: "partition_of S cs" and a: "a \<in> S" and b: "b \<in> S"
    and s: "same_cluster cs x y"
  shows "same_cluster (merge_clusters n a b cs) x y"
proof (cases "cluster_of cs a \<noteq> cluster_of cs b
              \<and> length (cluster_of cs a) + length (cluster_of cs b) \<le> n")
  case False
  then have "merge_clusters n a b cs = cs"
    by (auto simp: merge_clusters_def Let_def)
  with s show ?thesis by simp
next
  case True
  let ?ca = "cluster_of cs a" and ?cb = "cluster_of cs b"
  have S: "set (merge_clusters n a b cs) = insert (?ca @ ?cb) (set cs - {?ca, ?cb})"
    using set_merge_clusters[OF p a b] True by blast
  from s obtain c where c: "c \<in> set cs" "x \<in> set c" "y \<in> set c"
    unfolding same_cluster_def by blast
  show ?thesis
  proof (cases "c = ?ca \<or> c = ?cb")
    case True
    then have "x \<in> set (?ca @ ?cb)" "y \<in> set (?ca @ ?cb)" using c by auto
    then show ?thesis unfolding same_cluster_def S by blast
  next
    case False
    then show ?thesis unfolding same_cluster_def S using c by blast
  qed
qed

lemma same_cluster_merge_joined:
  assumes p: "partition_of (set indices) cs" and d: "distinct indices"
    and a: "a \<in> set indices" and b: "b \<in> set indices"
    and n: "length indices \<le> n"
  shows "same_cluster (merge_clusters n a b cs) a b"
proof (cases "cluster_of cs a = cluster_of cs b")
  case True
  then have "merge_clusters n a b cs = cs"
    by (simp add: merge_clusters_def Let_def)
  moreover have "same_cluster cs a b"
    using cluster_of_in[OF p a] cluster_of_in[OF p b] True unfolding same_cluster_def by metis
  ultimately show ?thesis by simp
next
  case False
  let ?ca = "cluster_of cs a" and ?cb = "cluster_of cs b"
  have ina: "?ca \<in> set cs" "a \<in> set ?ca" and inb: "?cb \<in> set cs" "b \<in> set ?cb"
    using cluster_of_in[OF p a] cluster_of_in[OF p b] by simp_all
  have "length ?ca + length ?cb \<le> n"
    using two_clusters_fit[OF p d ina(1) inb(1) False] n by simp
  then have "set (merge_clusters n a b cs) = insert (?ca @ ?cb) (set cs - {?ca, ?cb})"
    using set_merge_clusters[OF p a b False] by blast
  moreover have "a \<in> set (?ca @ ?cb)" "b \<in> set (?ca @ ?cb)" using ina inb by auto
  ultimately show ?thesis unfolding same_cluster_def by blast
qed

lemma chained_merge_clusters:
  assumes p: "partition_of S cs" and a: "a \<in> S" and b: "b \<in> S"
    and ch: "chained E cs" and ab: "(a, b) \<in> E" and ba: "(b, a) \<in> E"
  shows "chained E (merge_clusters n a b cs)"
proof (cases "cluster_of cs a \<noteq> cluster_of cs b
              \<and> length (cluster_of cs a) + length (cluster_of cs b) \<le> n")
  case False
  then have "merge_clusters n a b cs = cs"
    by (auto simp: merge_clusters_def Let_def)
  with ch show ?thesis by simp
next
  case True
  let ?ca = "cluster_of cs a" and ?cb = "cluster_of cs b"
  have S: "set (merge_clusters n a b cs) = insert (?ca @ ?cb) (set cs - {?ca, ?cb})"
    using set_merge_clusters[OF p a b] True by blast
  have ina: "?ca \<in> set cs" "a \<in> set ?ca" and inb: "?cb \<in> set cs" "b \<in> set ?cb"
    using cluster_of_in[OF p a] cluster_of_in[OF p b] by simp_all
  have old: "\<And>c x y. c \<in> set cs \<Longrightarrow> x \<in> set c \<Longrightarrow> y \<in> set c \<Longrightarrow> (x, y) \<in> E\<^sup>*"
    using ch unfolding chained_def by blast
  have toa: "\<And>x. x \<in> set (?ca @ ?cb) \<Longrightarrow> (x, a) \<in> E\<^sup>*"
  proof -
    fix x assume "x \<in> set (?ca @ ?cb)"
    then consider "x \<in> set ?ca" | "x \<in> set ?cb" by auto
    then show "(x, a) \<in> E\<^sup>*"
    proof cases
      case 1 then show ?thesis using old[OF ina(1) _ ina(2)] by blast
    next
      case 2
      then have "(x, b) \<in> E\<^sup>*" using old[OF inb(1) _ inb(2)] by blast
      then show ?thesis using ba by (rule rtrancl_into_rtrancl)
    qed
  qed
  have froma: "\<And>y. y \<in> set (?ca @ ?cb) \<Longrightarrow> (a, y) \<in> E\<^sup>*"
  proof -
    fix y assume "y \<in> set (?ca @ ?cb)"
    then consider "y \<in> set ?ca" | "y \<in> set ?cb" by auto
    then show "(a, y) \<in> E\<^sup>*"
    proof cases
      case 1 then show ?thesis using old[OF ina(1) ina(2)] by blast
    next
      case 2
      then have "(b, y) \<in> E\<^sup>*" using old[OF inb(1) inb(2)] by blast
      then show ?thesis using ab by (rule converse_rtrancl_into_rtrancl[rotated])
    qed
  qed
  show ?thesis
    unfolding chained_def
  proof (intro ballI)
    fix c x y
    assume c: "c \<in> set (merge_clusters n a b cs)" and x: "x \<in> set c" and y: "y \<in> set c"
    from c consider "c = ?ca @ ?cb" | "c \<in> set cs" unfolding S by blast
    then show "(x, y) \<in> E\<^sup>*"
    proof cases
      case 1
      then have "(x, a) \<in> E\<^sup>*" "(a, y) \<in> E\<^sup>*" using toa froma x y by simp_all
      then show ?thesis by (rule rtrancl_trans)
    next
      case 2 then show ?thesis using old x y by blast
    qed
  qed
qed

lemma fold_link_invariant:
  assumes d: "distinct indices" and n: "length indices \<le> n"
    and sym: "\<And>x y. close x y \<Longrightarrow> close y x"
    and E: "E = {(x, y). x \<in> set indices \<and> y \<in> set indices \<and> close x y}"
  shows "partition_of (set indices) cs \<Longrightarrow> chained E cs \<Longrightarrow> set ps \<subseteq> set indices \<times> set indices \<Longrightarrow>
         partition_of (set indices) (fold (link close n) ps cs)
         \<and> chained E (fold (link close n) ps cs)
         \<and> (\<forall>x y. same_cluster cs x y \<longrightarrow> same_cluster (fold (link close n) ps cs) x y)
         \<and> (\<forall>p \<in> set ps. close (fst p) (snd p) \<longrightarrow>
               same_cluster (fold (link close n) ps cs) (fst p) (snd p))"
proof (induction ps arbitrary: cs)
  case Nil
  then show ?case by simp
next
  case (Cons p ps)
  obtain a b where p: "p = (a, b)" by (cases p)
  have a: "a \<in> set indices" and b: "b \<in> set indices" using Cons.prems(3) p by auto
  have ps: "set ps \<subseteq> set indices \<times> set indices" using Cons.prems(3) by auto
  let ?cs = "link close n p cs"
  have part: "partition_of (set indices) ?cs"
    using partition_merge_clusters[OF Cons.prems(1) a b] Cons.prems(1) by (simp add: link_def p)
  have chain: "chained E ?cs"
  proof (cases "close a b")
    case True
    then have "(a, b) \<in> E" "(b, a) \<in> E" using a b sym E by auto
    then show ?thesis
      using chained_merge_clusters[OF Cons.prems(1) a b Cons.prems(2)] True
      by (simp add: link_def p)
  next
    case False
    then show ?thesis using Cons.prems(2) by (simp add: link_def p)
  qed
  have mono: "\<And>x y. same_cluster cs x y \<Longrightarrow> same_cluster ?cs x y"
    using same_cluster_merge_mono[OF Cons.prems(1) a b] by (simp add: link_def p)
  have here: "close a b \<Longrightarrow> same_cluster ?cs a b"
    using same_cluster_merge_joined[OF Cons.prems(1) d a b n] by (simp add: link_def p)
  note IH = Cons.IH[OF part chain ps]
  have f: "fold (link close n) (p # ps) cs = fold (link close n) ps ?cs" by simp
  show ?case
    unfolding f
  proof (intro conjI allI impI ballI)
    show "partition_of (set indices) (fold (link close n) ps ?cs)" using IH by blast
    show "chained E (fold (link close n) ps ?cs)" using IH by blast
  next
    fix x y assume "same_cluster cs x y"
    then show "same_cluster (fold (link close n) ps ?cs) x y" using mono IH by blast
  next
    fix q assume q: "q \<in> set (p # ps)" and c: "close (fst q) (snd q)"
    show "same_cluster (fold (link close n) ps ?cs) (fst q) (snd q)"
    proof (cases "q = p")
      case True
      then show ?thesis using here c p IH by auto
    next
      case False
      then have "q \<in> set ps" using q by simp
      then show ?thesis using IH c by blast
    qed
  qed
qed

lemma singletons_partition:
  assumes "distinct indices"
  shows "partition_of (set indices) (map (\<lambda>i. [i]) indices)"
  unfolding partition_of_def by auto

lemma singletons_chained: "chained E (map (\<lambda>i. [i]) indices)"
  unfolding chained_def by auto

lemma cluster_by_single_linkage:
  assumes d: "distinct indices" and n: "length indices \<le> n"
    and sym: "\<And>x y. close x y \<Longrightarrow> close y x"
    and a: "a \<in> set indices" and b: "b \<in> set indices"
  shows "same_cluster (cluster_by close n indices) a b
         \<longleftrightarrow> (a, b) \<in> {(x, y). x \<in> set indices \<and> y \<in> set indices \<and> close x y}\<^sup>*"
proof -
  define E where "E = {(x, y). x \<in> set indices \<and> y \<in> set indices \<and> close x y}"
  let ?out = "cluster_by close n indices"
  have inv: "partition_of (set indices) ?out \<and> chained E ?out
      \<and> (\<forall>p \<in> set (List.product indices indices). close (fst p) (snd p) \<longrightarrow>
               same_cluster ?out (fst p) (snd p))"
    using fold_link_invariant[OF d n sym E_def singletons_partition[OF d] singletons_chained,
        of "List.product indices indices"]
    unfolding cluster_by_def by auto
  then have part: "partition_of (set indices) ?out" and ch: "chained E ?out" by blast+
  have edge: "\<And>x y. (x, y) \<in> E \<Longrightarrow> same_cluster ?out x y"
    using inv unfolding E_def by fastforce
  have trans: "\<And>x y z. same_cluster ?out x y \<Longrightarrow> same_cluster ?out y z \<Longrightarrow> same_cluster ?out x z"
    unfolding same_cluster_def using partition_unique[OF part] by metis
  have refl: "same_cluster ?out a a"
    using part a unfolding partition_of_def same_cluster_def by blast
  have "(a, b) \<in> E\<^sup>* \<Longrightarrow> same_cluster ?out a b"
  proof (induction rule: rtrancl_induct)
    case base
    show ?case by (rule refl)
  next
    case (step y z)
    then show ?case using edge trans by blast
  qed
  moreover have "same_cluster ?out a b \<Longrightarrow> (a, b) \<in> E\<^sup>*"
    using ch unfolding chained_def same_cluster_def by blast
  ultimately show ?thesis unfolding E_def by blast
qed

subsection \<open>Clustering: evaluation and the size bound\<close>

lemma point_distance_commute: "point_distance p q = point_distance q p"
  by (cases p; cases q) (simp add: point_distance_def squaredNorm_def power2_commute flip: power2_eq_square)

lemma point_distance_le_iff:
  "0 \<le> d \<Longrightarrow> point_distance p q \<le> d \<longleftrightarrow> squaredNorm (vsub p q) \<le> d\<^sup>2"
  unfolding point_distance_def
  by (metis abs_of_nonneg real_sqrt_abs real_sqrt_le_iff)

lemmas cluster_eval = cluster_def cluster_by_def link_def merge_clusters_def cluster_of_def
  line_points_def point_distance_le_iff squaredNorm_def

lemma merge_clusters_bound:
  assumes "\<forall>c \<in> set cs. length c \<le> n"
  shows "\<forall>c \<in> set (merge_clusters n a b cs). length c \<le> n"
  using assms by (auto simp: merge_clusters_def Let_def)

lemma fold_link_bound:
  "\<forall>c \<in> set cs. length c \<le> n \<Longrightarrow> \<forall>c \<in> set (fold (link close n) ps cs). length c \<le> n"
proof (induction ps arbitrary: cs)
  case Nil
  then show ?case by simp
next
  case (Cons p ps)
  have "\<forall>c \<in> set (link close n p cs). length c \<le> n"
    using merge_clusters_bound[OF Cons.prems] Cons.prems by (simp add: link_def)
  then show ?case using Cons.IH by simp
qed

lemma cluster_by_bound:
  assumes "1 \<le> n"
  shows "\<forall>c \<in> set (cluster_by close n indices). length c \<le> n"
  unfolding cluster_by_def using assms by (intro fold_link_bound) auto

lemma merge_clusters_rejected:
  "n < length (cluster_of cs a) + length (cluster_of cs b) \<Longrightarrow> merge_clusters n a b cs = cs"
  by (simp add: merge_clusters_def Let_def)

text \<open>
  Claim C1. Variant A with a cap that cannot bind (\<^verbatim>\<open>max_points\<close> at least the number
  of input indices) on a list of distinct indices: two input indices lie in one output
  cluster if and only if a chain of input indices leads from one to the other in which
  every consecutive pair is within the distance threshold.
\<close>

theorem cluster_single_linkage:
  assumes "distinct indices"
    and "length indices \<le> unat max_points"
    and "a \<in> set indices" and "b \<in> set indices"
  shows "(\<exists>c \<in> set (cluster indices pointfn d max_points). a \<in> set c \<and> b \<in> set c)
         \<longleftrightarrow> (a, b) \<in> {(x, y). x \<in> set indices \<and> y \<in> set indices
                           \<and> point_distance (pointfn x) (pointfn y) \<le> d}\<^sup>*"
proof -
  have sym: "\<And>x y. point_distance (pointfn x) (pointfn y) \<le> d
                 \<Longrightarrow> point_distance (pointfn y) (pointfn x) \<le> d"
    by (simp add: point_distance_commute)
  show ?thesis
    using cluster_by_single_linkage[OF assms(1,2) sym assms(3,4)]
    unfolding cluster_def same_cluster_def by simp
qed

theorem cluster_single_linkage_witness:
  "distinct [0, 1, 2 :: 32 word]
   \<and> length [0, 1, 2 :: 32 word] \<le> unat (3 :: 32 word)
   \<and> cluster [0, 1, 2] line_points 1 3 = [[0, 1, 2]]
   \<and> \<not> point_distance (line_points 0) (line_points 2) \<le> 1
   \<and> (0, 2) \<in> {(x, y). x \<in> set [0, 1, 2] \<and> y \<in> set [0, 1, 2]
                    \<and> point_distance (line_points x) (line_points y) \<le> 1}\<^sup>*
   \<and> cluster [0, 1, 5] line_points 1 3 = [[0, 1], [5]]
   \<and> (0, 5) \<notin> {(x, y). x \<in> set [0, 1, 5] \<and> y \<in> set [0, 1, 5]
                    \<and> point_distance (line_points x) (line_points y) \<le> 1}\<^sup>*"
proof -
  have e1: "cluster [0, 1, 2] line_points 1 3 = [[0, 1, 2]]"
    by (simp add: cluster_eval)
  have e2: "cluster [0, 1, 5] line_points 1 3 = [[0, 1], [5]]"
    by (simp add: cluster_eval)
  have far: "\<not> point_distance (line_points 0) (line_points 2) \<le> 1"
    by (simp add: cluster_eval)
  have c1: "(0, 2) \<in> {(x, y). x \<in> set [0, 1, 2] \<and> y \<in> set [0, 1, 2]
                    \<and> point_distance (line_points x) (line_points y) \<le> 1}\<^sup>*"
    using cluster_single_linkage [of "[0, 1, 2]" 3 0 2 line_points 1] e1 by simp
  have c2: "(0, 5) \<notin> {(x, y). x \<in> set [0, 1, 5] \<and> y \<in> set [0, 1, 5]
                    \<and> point_distance (line_points x) (line_points y) \<le> 1}\<^sup>*"
    using cluster_single_linkage [of "[0, 1, 5]" 3 0 5 line_points 1] e2 by simp
  have d: "distinct [0, 1, 2 :: 32 word]" by simp
  have l: "length [0, 1, 2 :: 32 word] \<le> unat (3 :: 32 word)" by simp
  show ?thesis by (intro conjI d l e1 e2 far c1 c2)
qed

text \<open>
  Claim C2, as stated, fails when \<^verbatim>\<open>max_points\<close> is 0: every input index is in some
  cluster, and a cluster that holds an index has more than 0 elements.
\<close>

theorem cluster_size_bound_counterexample:
  "cluster [0] line_points 1 0 = [[0]] \<and> unat (0 :: 32 word) < length [0 :: 32 word]"
  by (simp add: cluster_eval)

text \<open>
  Claim C2, amended. For each of the three overloads and every \<^verbatim>\<open>max_points\<close> of at
  least 1, no cluster of the result holds more than \<^verbatim>\<open>max_points\<close> indices; and a merge
  of two clusters that together hold more than \<^verbatim>\<open>max_points\<close> indices is rejected: the
  list of clusters stays as it is, so each side keeps its members.
\<close>

theorem cluster_size_bound:
  assumes "max_points \<noteq> 0"
  shows "(\<forall>c \<in> set (cluster indices pointfn d max_points). length c \<le> unat max_points)
       \<and> (\<forall>c \<in> set (cluster_points points d max_points). length c \<le> unat max_points)
       \<and> (\<forall>c \<in> set (cluster_pred indices pointfn predicate max_points).
             length c \<le> unat max_points)
       \<and> (unat max_points < length (cluster_of cs a) + length (cluster_of cs b)
             \<longrightarrow> merge_clusters (unat max_points) a b cs = (cs :: ClusteredPoints))"
proof -
  have n: "1 \<le> unat max_points"
    using assms by (simp add: unat_gt_0 Suc_le_eq)
  have A: "\<forall>c \<in> set (cluster indices pointfn d max_points). length c \<le> unat max_points"
    for indices pointfn
    unfolding cluster_def by (rule cluster_by_bound[OF n])
  have B: "\<forall>c \<in> set (cluster_points points d max_points). length c \<le> unat max_points"
    unfolding cluster_points_def by (rule A)
  have C: "\<forall>c \<in> set (cluster_pred indices pointfn predicate max_points).
             length c \<le> unat max_points"
    unfolding cluster_pred_def by (rule cluster_by_bound[OF n])
  have R: "unat max_points < length (cluster_of cs a) + length (cluster_of cs b)
             \<longrightarrow> merge_clusters (unat max_points) a b cs = cs"
    by (simp add: merge_clusters_rejected)
  show ?thesis by (intro conjI A B C R)
qed

theorem cluster_size_bound_witness:
  "(2 :: 32 word) \<noteq> 0
   \<and> cluster [0, 1, 2] line_points 1 2 = [[0, 1], [2]]
   \<and> length [0, 1 :: 32 word] \<le> unat (2 :: 32 word)
   \<and> unat (2 :: 32 word) < length (cluster_of [[0, 1], [2 :: 32 word]] 1)
                              + length (cluster_of [[0, 1], [2 :: 32 word]] 2)
   \<and> merge_clusters (unat (2 :: 32 word)) 1 2 [[0, 1], [2 :: 32 word]] = [[0, 1], [2]]"
proof -
  have e: "cluster [0, 1, 2] line_points 1 2 = [[0, 1], [2]]"
    by (simp add: cluster_eval)
  have big: "unat (2 :: 32 word) < length (cluster_of [[0, 1], [2 :: 32 word]] 1)
                              + length (cluster_of [[0, 1], [2 :: 32 word]] 2)"
    by (simp add: cluster_of_def)
  have ne: "(2 :: 32 word) \<noteq> 0" by simp
  note b = cluster_size_bound [OF ne, where indices = "[0, 1, 2]" and pointfn = line_points
      and d = 1 and cs = "[[0, 1], [2]]" and a = 1 and b = 2]
  have len: "length [0, 1 :: 32 word] \<le> unat (2 :: 32 word)"
    using b e by simp
  have rej: "merge_clusters (unat (2 :: 32 word)) 1 2 [[0, 1], [2 :: 32 word]] = [[0, 1], [2]]"
    using b big by simp
  show ?thesis by (intro conjI ne e len big rej)
qed

end
